theory Spec2Isabelle
  imports Complex_Main
begin

section \<open>Data model\<close>

text \<open>
  The lottery backend exists in two variants. \<^verbatim>\<open>src/index.ts\<close> weights a prize by its
  \<^verbatim>\<open>probability\<close> column, tracks participants and writes a row of
  \<^verbatim>\<open>lottery_records\<close> per draw. \<^verbatim>\<open>src/unnamed/part_000\<close> weights a prize by its
  \<^verbatim>\<open>total_quantity\<close>, reads the prizes \<^verbatim>\<open>FOR UPDATE\<close> and writes no record.
  Both read \<^verbatim>\<open>SELECT * FROM prizes\<close>, so one row type serves both.

  JavaScript numbers are modelled as exact numbers: the integer columns as \<open>int\<close>, the
  \<^verbatim>\<open>probability\<close> column and the value of \<^verbatim>\<open>Math.random()\<close> as \<open>real\<close>. Rounding of
  IEEE doubles is outside this model.
\<close>

record prize =
  prize_id :: int
  prize_name :: string
  total_quantity :: int
  remaining_quantity :: int
  probability :: real
  color :: string

record participant =
  participant_id :: int
  participant_name :: string

text \<open>
  A row of \<^verbatim>\<open>lottery_records\<close>, with the two columns the \<^verbatim>\<open>INSERT\<close> sets; the key
  and the timestamp are filled in by the store.
\<close>

record lottery_record =
  record_participant_id :: int
  record_prize_id :: int

record db =
  prizes :: "prize list"
  participants :: "participant list"
  lottery_records :: "lottery_record list"

record request =
  participantName :: "string option"

text \<open>
  The statements a handler sends over its connection. Each may throw; then the handler's
  \<^verbatim>\<open>catch\<close> block rolls back and answers 500.
\<close>

datatype stmt =
  BeginTransaction | SelectParticipant | InsertParticipant | SelectPrizes
  | InsertRecord | UpdatePrize | CommitTransaction

text \<open>
  What a handler run takes from its environment: the value of \<^verbatim>\<open>Math.random()\<close>, the
  key the store gives an inserted participant, and which statements throw.
\<close>

record env =
  random :: real
  insertId :: int
  fails :: "stmt \<Rightarrow> bool"

datatype draw_error = NameRequired | NoPrizesAvailable | DrawFailed

datatype response = Success "participant option" prize | Failure draw_error

fun http_status :: "response \<Rightarrow> nat" where
  "http_status (Success _ _) = 200"
| "http_status (Failure NameRequired) = 400"
| "http_status (Failure NoPrizesAvailable) = 400"
| "http_status (Failure DrawFailed) = 500"

text \<open>
  How a handler run ends: with \<^verbatim>\<open>commit\<close>, the transaction's writes then being the
  stored state; with \<^verbatim>\<open>rollback\<close>; or, for the early return on a missing name, with
  neither, no write having been sent.
\<close>

datatype outcome = Committed response db | RolledBack response | LeftOpen response

fun response_of :: "outcome \<Rightarrow> response" where
  "response_of (Committed r _) = r"
| "response_of (RolledBack r) = r"
| "response_of (LeftOpen r) = r"

fun final_db :: "db \<Rightarrow> outcome \<Rightarrow> db" where
  "final_db d (Committed _ d') = d'"
| "final_db d (RolledBack _) = d"
| "final_db d (LeftOpen _) = d"

section \<open>The statements\<close>

text \<open>\<^verbatim>\<open>SELECT * FROM participants WHERE name = ?\<close>\<close>

definition select_participants :: "string \<Rightarrow> db \<Rightarrow> participant list" where
  "select_participants n d = filter (\<lambda>p. participant_name p = n) (participants d)"

text \<open>\<^verbatim>\<open>INSERT INTO participants (name) VALUES (?)\<close>\<close>

definition insert_participant :: "int \<Rightarrow> string \<Rightarrow> db \<Rightarrow> db" where
  "insert_participant i n d =
     d\<lparr>participants := participants d @ [\<lparr>participant_id = i, participant_name = n\<rparr>]\<rparr>"

text \<open>\<^verbatim>\<open>SELECT * FROM prizes WHERE remaining_quantity > 0\<close>, in the table's order.\<close>

definition select_eligible :: "db \<Rightarrow> prize list" where
  "select_eligible d = filter (\<lambda>p. 0 < remaining_quantity p) (prizes d)"

text \<open>\<^verbatim>\<open>INSERT INTO lottery_records (participant_id, prize_id) VALUES (?, ?)\<close>\<close>

definition insert_record :: "int \<Rightarrow> int \<Rightarrow> db \<Rightarrow> db" where
  "insert_record pid k d =
     d\<lparr>lottery_records := lottery_records d
          @ [\<lparr>record_participant_id = pid, record_prize_id = k\<rparr>]\<rparr>"

text \<open>
  \<^verbatim>\<open>UPDATE prizes SET remaining_quantity = remaining_quantity - 1
  WHERE id = ? AND remaining_quantity > 0\<close>: the rows it changes, and the number of rows
  it reports as affected. Neither handler reads that number.
\<close>

definition decrement :: "prize \<Rightarrow> prize" where
  "decrement p = p\<lparr>remaining_quantity := remaining_quantity p - 1\<rparr>"

definition update_remaining :: "int \<Rightarrow> prize list \<Rightarrow> prize list" where
  "update_remaining k ps =
     map (\<lambda>p. if prize_id p = k \<and> 0 < remaining_quantity p then decrement p else p) ps"

definition affected_rows :: "int \<Rightarrow> prize list \<Rightarrow> nat" where
  "affected_rows k ps =
     length (filter (\<lambda>p. prize_id p = k \<and> 0 < remaining_quantity p) ps)"

definition update_prize :: "int \<Rightarrow> db \<Rightarrow> db" where
  "update_prize k d = d\<lparr>prizes := update_remaining k (prizes d)\<rparr>"

section \<open>Weighted selection\<close>

text \<open>
  The \<^verbatim>\<open>for\<close> loop of \<^verbatim>\<open>weightedRandom\<close>: subtract the prize's weight, return the prize
  when the value is at most 0. \<open>None\<close> is the loop running to its end.
\<close>

fun walk :: "(prize \<Rightarrow> real) \<Rightarrow> real \<Rightarrow> prize list \<Rightarrow> prize option" where
  "walk w r [] = None"
| "walk w r (p # ps) = (let r' = r - w p in if r' \<le> 0 then Some p else walk w r' ps)"

text \<open>A JavaScript array read: \<^verbatim>\<open>undefined\<close>, here \<open>None\<close>, outside the array.\<close>

definition js_index :: "'a list \<Rightarrow> int \<Rightarrow> 'a option" where
  "js_index xs i = (if 0 \<le> i \<and> i < int (length xs) then Some (xs ! nat i) else None)"

definition select_from :: "(prize \<Rightarrow> real) \<Rightarrow> real \<Rightarrow> prize list \<Rightarrow> prize option" where
  "select_from w r ps =
     (case walk w r ps of
        Some p \<Rightarrow> Some p
      | None \<Rightarrow> js_index ps (int (length ps) - 1))"

text \<open>\<^verbatim>\<open>src/index.ts\<close>: \<^verbatim>\<open>let random = Math.random() * 100\<close>, weights \<^verbatim>\<open>probability\<close>.\<close>

definition random_index :: "real \<Rightarrow> real" where
  "random_index u = u * 100"

definition weightedRandom_index :: "real \<Rightarrow> prize list \<Rightarrow> prize option" where
  "weightedRandom_index u ps = select_from probability (random_index u) ps"

text \<open>
  \<^verbatim>\<open>src/unnamed/part_000\<close>: \<^verbatim>\<open>totalWeight\<close> is a \<^verbatim>\<open>reduce\<close> from 0 over
  \<^verbatim>\<open>total_quantity\<close>, \<^verbatim>\<open>random = Math.random() * totalWeight\<close>, weights
  \<^verbatim>\<open>total_quantity\<close>.
\<close>

definition weight_part0 :: "prize \<Rightarrow> real" where
  "weight_part0 p = real_of_int (total_quantity p)"

definition totalWeight :: "prize list \<Rightarrow> real" where
  "totalWeight ps = foldl (\<lambda>s p. s + weight_part0 p) 0 ps"

definition random_part0 :: "real \<Rightarrow> prize list \<Rightarrow> real" where
  "random_part0 u ps = u * totalWeight ps"

definition weightedRandom_part0 :: "real \<Rightarrow> prize list \<Rightarrow> prize option" where
  "weightedRandom_part0 u ps = select_from weight_part0 (random_part0 u ps) ps"

section \<open>The draw handlers\<close>

text \<open>
  The prize read and the check that follows it. \<open>Inl\<close> is the handler returning,
  \<open>Inr\<close> the rows it goes on with. Both variants read the same rows; the
  \<^verbatim>\<open>FOR UPDATE\<close> of \<^verbatim>\<open>src/unnamed/part_000\<close> changes nothing for a handler that runs
  on its own, which is what these definitions describe.
\<close>

definition fetch_eligible :: "env \<Rightarrow> db \<Rightarrow> outcome + prize list" where
  "fetch_eligible e d =
     (if fails e SelectPrizes then Inl (RolledBack (Failure DrawFailed))
      else let ps = select_eligible d in
        if length ps = 0 then Inl (RolledBack (Failure NoPrizesAvailable))
        else Inr ps)"

subsection \<open>\<^verbatim>\<open>src/index.ts\<close>\<close>

text \<open>The lookup of the participant by name, and the insert when there is none.\<close>

definition find_or_create :: "env \<Rightarrow> string \<Rightarrow> db \<Rightarrow> outcome + (int \<times> db)" where
  "find_or_create e n d =
     (if fails e SelectParticipant then Inl (RolledBack (Failure DrawFailed))
      else case select_participants n d of
        [] \<Rightarrow>
          (if fails e InsertParticipant then Inl (RolledBack (Failure DrawFailed))
           else Inr (insertId e, insert_participant (insertId e) n d))
      | p # _ \<Rightarrow> Inr (participant_id p, d))"

text \<open>
  The handler up to the call of \<^verbatim>\<open>weightedRandom\<close>: the participant's key and name, the
  transaction's state and the rows passed to \<^verbatim>\<open>weightedRandom\<close>. A name that is absent
  or empty is falsy.
\<close>

definition draw_read_index ::
  "env \<Rightarrow> request \<Rightarrow> db \<Rightarrow> outcome + (int \<times> string \<times> db \<times> prize list)" where
  "draw_read_index e req d =
     (if fails e BeginTransaction then Inl (RolledBack (Failure DrawFailed))
      else case participantName req of
        None \<Rightarrow> Inl (LeftOpen (Failure NameRequired))
      | Some n \<Rightarrow>
          if n = [] then Inl (LeftOpen (Failure NameRequired))
          else (case find_or_create e n d of
                  Inl out \<Rightarrow> Inl out
                | Inr (pid, tx) \<Rightarrow>
                    (case fetch_eligible e tx of
                       Inl out \<Rightarrow> Inl out
                     | Inr ps \<Rightarrow> Inr (pid, n, tx, ps))))"

text \<open>
  The handler from the record insert on, run on the transaction's state at that time
  with the prize object \<^verbatim>\<open>selectedPrize\<close>.
\<close>

definition draw_write_index :: "env \<Rightarrow> int \<Rightarrow> string \<Rightarrow> prize \<Rightarrow> db \<Rightarrow> outcome" where
  "draw_write_index e pid n sel tx =
     (if fails e InsertRecord then RolledBack (Failure DrawFailed)
      else let tx1 = insert_record pid (prize_id sel) tx in
        if fails e UpdatePrize then RolledBack (Failure DrawFailed)
        else let tx2 = update_prize (prize_id sel) tx1 in
          if fails e CommitTransaction then RolledBack (Failure DrawFailed)
          else Committed
                 (Success (Some \<lparr>participant_id = pid, participant_name = n\<rparr>) sel) tx2)"

text \<open>
  The whole handler. Were \<^verbatim>\<open>selectedPrize\<close> undefined, reading its \<^verbatim>\<open>id\<close> would throw
  and the \<^verbatim>\<open>catch\<close> block would answer 500.
\<close>

definition draw_index :: "env \<Rightarrow> request \<Rightarrow> db \<Rightarrow> outcome" where
  "draw_index e req d =
     (case draw_read_index e req d of
        Inl out \<Rightarrow> out
      | Inr (pid, n, tx, ps) \<Rightarrow>
          (case weightedRandom_index (random e) ps of
             None \<Rightarrow> RolledBack (Failure DrawFailed)
           | Some sel \<Rightarrow> draw_write_index e pid n sel tx))"

subsection \<open>\<^verbatim>\<open>src/unnamed/part_000\<close>\<close>

definition draw_read_part0 :: "env \<Rightarrow> db \<Rightarrow> outcome + prize list" where
  "draw_read_part0 e d =
     (if fails e BeginTransaction then Inl (RolledBack (Failure DrawFailed))
      else fetch_eligible e d)"

definition draw_write_part0 :: "env \<Rightarrow> prize \<Rightarrow> db \<Rightarrow> outcome" where
  "draw_write_part0 e sel tx =
     (if fails e UpdatePrize then RolledBack (Failure DrawFailed)
      else let tx1 = update_prize (prize_id sel) tx in
        if fails e CommitTransaction then RolledBack (Failure DrawFailed)
        else Committed (Success None sel) tx1)"

definition draw_part0 :: "env \<Rightarrow> db \<Rightarrow> outcome" where
  "draw_part0 e d =
     (case draw_read_part0 e d of
        Inl out \<Rightarrow> out
      | Inr ps \<Rightarrow>
          (case weightedRandom_part0 (random e) ps of
             None \<Rightarrow> RolledBack (Failure DrawFailed)
           | Some sel \<Rightarrow> draw_write_part0 e sel d))"

section \<open>Notions used to state the properties\<close>

text \<open>
  The value of the variable \<^verbatim>\<open>random\<close> of \<^verbatim>\<open>weightedRandom\<close> after \<open>k\<close> rounds of
  the loop that starts from \<open>r\<close>.
\<close>

definition running :: "(prize \<Rightarrow> real) \<Rightarrow> real \<Rightarrow> prize list \<Rightarrow> nat \<Rightarrow> real" where
  "running w r ps k = foldl (\<lambda>a p. a - w p) r (take k ps)"

text \<open>
  The selection as the specification words it: \<open>p\<close> is the first prize at which the
  running value is at most 0, and the last prize of the list when there is none.
\<close>

definition selects :: "(prize \<Rightarrow> real) \<Rightarrow> real \<Rightarrow> prize list \<Rightarrow> prize \<Rightarrow> bool" where
  "selects w r ps p =
     (((\<exists>k<length ps. running w r ps (Suc k) \<le> 0) \<longrightarrow>
        (\<exists>k<length ps. p = ps ! k \<and> running w r ps (Suc k) \<le> 0
            \<and> (\<forall>j<k. 0 < running w r ps (Suc j))))
      \<and> ((\<forall>k<length ps. 0 < running w r ps (Suc k)) \<longrightarrow> p = last ps))"

text \<open>The total weight as the specification words it: the sum of the weights.\<close>

definition spec_total_weight :: "(prize \<Rightarrow> real) \<Rightarrow> prize list \<Rightarrow> real" where
  "spec_total_weight w ps = sum_list (map w ps)"

text \<open>
  Exactly one inventory decrement: the prize table after differs from the one before in
  the row of the selected prize only, which has lost one unit.
\<close>

definition one_decrement :: "prize \<Rightarrow> db \<Rightarrow> db \<Rightarrow> bool" where
  "one_decrement sel d d' =
     (\<exists>i<length (prizes d). prizes d ! i = sel \<and> prizes d' = (prizes d)[i := decrement sel])"

text \<open>
  The same for the row with key \<open>k\<close>, whatever it holds: it is in stock and loses one
  unit, and no other row changes.
\<close>

definition one_decrement_at :: "int \<Rightarrow> db \<Rightarrow> db \<Rightarrow> bool" where
  "one_decrement_at k d d' =
     (\<exists>i<length (prizes d). prize_id (prizes d ! i) = k \<and> 0 < remaining_quantity (prizes d ! i)
        \<and> prizes d' = (prizes d)[i := decrement (prizes d ! i)])"

subsection \<open>Concrete stores and requests\<close>

text \<open>A prize with key \<open>i\<close>, weight \<open>w\<close> in both variants, and \<open>rem\<close> units left.\<close>

definition ex_prize :: "int \<Rightarrow> int \<Rightarrow> int \<Rightarrow> prize" where
  "ex_prize i w rem =
     \<lparr>prize_id = i, prize_name = ''prize'', total_quantity = w, remaining_quantity = rem,
      probability = real_of_int w, color = ''red''\<rparr>"

text \<open>The example of the specification: weights 10 and 90, five units left of each.\<close>

definition ex_prizes :: "prize list" where
  "ex_prizes = [ex_prize 1 10 5, ex_prize 2 90 5]"

definition ex_db :: db where
  "ex_db = \<lparr>prizes = ex_prizes, participants = [], lottery_records = []\<rparr>"

text \<open>Weights that sum to 30 only.\<close>

definition ex_prizes_short :: "prize list" where
  "ex_prizes_short = [ex_prize 1 10 5, ex_prize 2 20 5]"

text \<open>A store with every prize out of stock.\<close>

definition ex_db_empty :: db where
  "ex_db_empty =
     \<lparr>prizes = [ex_prize 1 10 0, ex_prize 2 90 0], participants = [], lottery_records = []\<rparr>"

text \<open>A store with the first prize out of stock.\<close>

definition ex_db_exhausted :: db where
  "ex_db_exhausted =
     \<lparr>prizes = [ex_prize 1 10 0, ex_prize 2 90 5], participants = [], lottery_records = []\<rparr>"

text \<open>The example of the specification after one unit of the first prize has gone.\<close>

definition ex_db_raced :: db where
  "ex_db_raced =
     \<lparr>prizes = [ex_prize 1 10 4, ex_prize 2 90 5], participants = [], lottery_records = []\<rparr>"

text \<open>A store whose only prize is in stock with \<^verbatim>\<open>total_quantity\<close> 0.\<close>

definition ex_db_weightless :: db where
  "ex_db_weightless =
     \<lparr>prizes = [ex_prize 1 0 5], participants = [], lottery_records = []\<rparr>"

text \<open>An environment in which no statement throws and \<^verbatim>\<open>Math.random()\<close> is \<open>u\<close>.\<close>

definition ex_env :: "real \<Rightarrow> env" where
  "ex_env u = \<lparr>random = u, insertId = 1, fails = (\<lambda>_. False)\<rparr>"

definition ex_request :: request where
  "ex_request = \<lparr>participantName = Some ''ann''\<rparr>"

text \<open>The definitions to unfold when a handler is run on a concrete store.\<close>

lemmas ex_defs = ex_db_def ex_prizes_def ex_prize_def ex_env_def ex_request_def
  ex_prizes_short_def ex_db_empty_def ex_db_exhausted_def ex_db_weightless_def
  ex_db_raced_def

lemmas handler_defs = draw_index_def draw_read_index_def draw_write_index_def
  draw_part0_def draw_read_part0_def draw_write_part0_def fetch_eligible_def
  find_or_create_def select_participants_def insert_participant_def select_eligible_def
  insert_record_def update_prize_def update_remaining_def decrement_def
  weightedRandom_index_def weightedRandom_part0_def select_from_def js_index_def
  random_index_def random_part0_def totalWeight_def weight_part0_def Let_def

section \<open>Facts about the selection walk\<close>

lemma running_Cons: "running w r (p # ps) (Suc k) = running w (r - w p) ps k"
  by (simp add: running_def)

lemma walk_Some:
  "walk w r ps = Some p \<Longrightarrow>
     \<exists>k<length ps. p = ps ! k \<and> running w r ps (Suc k) \<le> 0
        \<and> (\<forall>j<k. 0 < running w r ps (Suc j))"
proof (induction ps arbitrary: r)
  case Nil
  then show ?case by simp
next
  case (Cons q qs)
  show ?case
  proof (cases "r - w q \<le> 0")
    case True
    with Cons.prems have "p = q" by simp
    with True show ?thesis
      by (intro exI [of _ 0]) (simp add: running_def)
  next
    case False
    with Cons.prems have "walk w (r - w q) qs = Some p" by simp
    from Cons.IH [OF this] obtain k where k: "k < length qs" "p = qs ! k"
      "running w (r - w q) qs (Suc k) \<le> 0"
      "\<forall>j<k. 0 < running w (r - w q) qs (Suc j)" by blast
    have "\<forall>j<Suc k. 0 < running w r (q # qs) (Suc j)"
    proof (intro allI impI)
      fix j assume "j < Suc k"
      show "0 < running w r (q # qs) (Suc j)"
      proof (cases j)
        case 0
        with False show ?thesis by (simp add: running_def)
      next
        case (Suc i)
        with \<open>j < Suc k\<close> k(4) show ?thesis by (simp add: running_Cons)
      qed
    qed
    with k show ?thesis
      by (intro exI [of _ "Suc k"]) (simp add: running_Cons)
  qed
qed

lemma walk_None:
  "walk w r ps = None \<Longrightarrow> k < length ps \<Longrightarrow> 0 < running w r ps (Suc k)"
proof (induction ps arbitrary: r k)
  case Nil
  then show ?case by simp
next
  case (Cons q qs)
  from Cons.prems(1) have pos: "\<not> r - w q \<le> 0" and rest: "walk w (r - w q) qs = None"
    by (simp_all add: Let_def split: if_splits)
  show ?case
  proof (cases k)
    case 0
    with pos show ?thesis by (simp add: running_def)
  next
    case (Suc i)
    with Cons.prems(2) have "i < length qs" by simp
    from Cons.IH [OF rest this] Suc show ?thesis by (simp add: running_Cons)
  qed
qed

lemma walk_mem: "walk w r ps = Some p \<Longrightarrow> p \<in> set ps"
  by (induction ps arbitrary: r) (auto simp: Let_def split: if_splits)

lemma js_index_last: "ps \<noteq> [] \<Longrightarrow> js_index ps (int (length ps) - 1) = Some (last ps)"
  by (cases ps rule: rev_cases) (simp_all add: js_index_def nat_diff_distrib' nth_append)

lemma select_from_selects:
  assumes "ps \<noteq> []"
  shows "\<exists>p. select_from w r ps = Some p \<and> p \<in> set ps \<and> selects w r ps p"
proof (cases "walk w r ps")
  case None
  then have "\<forall>k<length ps. 0 < running w r ps (Suc k)"
    using walk_None by blast
  then have "selects w r ps (last ps)"
    by (fastforce simp: selects_def)
  with None assms show ?thesis
    by (simp add: select_from_def js_index_last)
next
  case (Some p)
  from walk_Some [OF this] have "selects w r ps p"
    unfolding selects_def by (metis not_less)
  with Some walk_mem [OF Some] show ?thesis
    by (simp add: select_from_def)
qed

section \<open>Facts about the total weight\<close>

lemma foldl_totalWeight: "foldl (\<lambda>s p. s + w p) a ps = a + sum_list (map w ps)"
  by (induction ps arbitrary: a) (simp_all add: add.assoc)

lemma totalWeight_sum: "totalWeight ps = spec_total_weight weight_part0 ps"
  by (simp add: totalWeight_def spec_total_weight_def foldl_totalWeight)

lemma select_from_mem: "select_from w r ps = Some p \<Longrightarrow> p \<in> set ps"
proof (cases ps)
  case Nil
  assume "select_from w r ps = Some p"
  with Nil show ?thesis by (simp add: select_from_def js_index_def)
next
  case (Cons q qs)
  then have "ps \<noteq> []" by simp
  from select_from_selects [OF this, of w r]
  obtain p' where "select_from w r ps = Some p'" "p' \<in> set ps" by blast
  moreover assume "select_from w r ps = Some p"
  ultimately show ?thesis by simp
qed

section \<open>Facts about the handlers\<close>

lemma fetch_eligible_Inr:
  "fetch_eligible e d = Inr ps \<Longrightarrow> ps = select_eligible d \<and> ps \<noteq> []"
  by (auto simp: fetch_eligible_def Let_def split: if_splits)

lemma fetch_eligible_Inl:
  "fetch_eligible e d = Inl out \<Longrightarrow> \<exists>err. out = RolledBack (Failure err)"
  by (auto simp: fetch_eligible_def Let_def split: if_splits)

lemma find_or_create_Inr:
  "find_or_create e n d = Inr (pid, tx) \<Longrightarrow>
     prizes tx = prizes d \<and> lottery_records tx = lottery_records d"
  by (auto simp: find_or_create_def insert_participant_def split: if_splits list.splits)

lemma find_or_create_Inl:
  "find_or_create e n d = Inl out \<Longrightarrow> \<exists>err. out = RolledBack (Failure err)"
  by (auto simp: find_or_create_def split: if_splits list.splits)

lemma draw_read_index_Inr:
  assumes "draw_read_index e req d = Inr (pid, n, tx, ps)"
  shows "prizes tx = prizes d \<and> lottery_records tx = lottery_records d
    \<and> ps = select_eligible d \<and> ps \<noteq> []"
proof -
  from assms have foc: "find_or_create e n d = Inr (pid, tx)"
    and fe: "fetch_eligible e tx = Inr ps"
    by (auto simp: draw_read_index_def split: if_splits option.splits sum.splits)
  from find_or_create_Inr [OF foc] fetch_eligible_Inr [OF fe]
  show ?thesis by (auto simp: select_eligible_def)
qed

lemma draw_read_index_Inl:
  assumes "draw_read_index e req d = Inl out"
  shows "\<exists>err. out = RolledBack (Failure err) \<or> out = LeftOpen (Failure err)"
  using assms find_or_create_Inl fetch_eligible_Inl
  by (fastforce simp: draw_read_index_def split: if_splits option.splits sum.splits)

lemma draw_write_index_cases:
  "draw_write_index e pid n sel tx = RolledBack (Failure DrawFailed)
   \<or> draw_write_index e pid n sel tx =
       Committed (Success (Some \<lparr>participant_id = pid, participant_name = n\<rparr>) sel)
         (update_prize (prize_id sel) (insert_record pid (prize_id sel) tx))"
  by (simp add: draw_write_index_def Let_def)

lemma draw_index_cases:
  "(\<exists>err. draw_index e req d = RolledBack (Failure err))
   \<or> (\<exists>err. draw_index e req d = LeftOpen (Failure err))
   \<or> (\<exists>pid n tx sel. prizes tx = prizes d \<and> lottery_records tx = lottery_records d
        \<and> sel \<in> set (select_eligible d)
        \<and> draw_index e req d =
            Committed (Success (Some \<lparr>participant_id = pid, participant_name = n\<rparr>) sel)
              (update_prize (prize_id sel) (insert_record pid (prize_id sel) tx)))"
proof (cases "draw_read_index e req d")
  case (Inl out)
  with draw_read_index_Inl [OF Inl] show ?thesis
    by (auto simp: draw_index_def)
next
  case (Inr t)
  obtain pid n tx ps where t: "t = (pid, n, tx, ps)" by (cases t) auto
  note rd = draw_read_index_Inr [OF Inr [unfolded t]]
  show ?thesis
  proof (cases "weightedRandom_index (random e) ps")
    case None
    with Inr t show ?thesis by (simp add: draw_index_def)
  next
    case (Some sel)
    then have "sel \<in> set ps"
      by (simp add: weightedRandom_index_def select_from_mem)
    with rd have mem: "sel \<in> set (select_eligible d)" by simp
    from Inr t Some have "draw_index e req d = draw_write_index e pid n sel tx"
      by (simp add: draw_index_def)
    with draw_write_index_cases [of e pid n sel tx] rd mem show ?thesis
      by metis
  qed
qed

lemma draw_read_part0_Inr:
  "draw_read_part0 e d = Inr ps \<Longrightarrow> ps = select_eligible d \<and> ps \<noteq> []"
  by (auto simp: draw_read_part0_def split: if_splits dest: fetch_eligible_Inr)

lemma draw_read_part0_Inl:
  "draw_read_part0 e d = Inl out \<Longrightarrow> \<exists>err. out = RolledBack (Failure err)"
  by (auto simp: draw_read_part0_def split: if_splits dest: fetch_eligible_Inl)

lemma draw_write_part0_cases:
  "draw_write_part0 e sel tx = RolledBack (Failure DrawFailed)
   \<or> draw_write_part0 e sel tx = Committed (Success None sel) (update_prize (prize_id sel) tx)"
  by (simp add: draw_write_part0_def Let_def)

lemma draw_part0_cases:
  "(\<exists>err. draw_part0 e d = RolledBack (Failure err))
   \<or> (\<exists>sel. sel \<in> set (select_eligible d)
        \<and> draw_part0 e d = Committed (Success None sel) (update_prize (prize_id sel) d))"
proof (cases "draw_read_part0 e d")
  case (Inl out)
  with draw_read_part0_Inl [OF Inl] show ?thesis
    by (auto simp: draw_part0_def)
next
  case (Inr ps)
  note rd = draw_read_part0_Inr [OF Inr]
  show ?thesis
  proof (cases "weightedRandom_part0 (random e) ps")
    case None
    with Inr show ?thesis by (simp add: draw_part0_def)
  next
    case (Some sel)
    then have "sel \<in> set ps"
      by (simp add: weightedRandom_part0_def select_from_mem)
    with rd have mem: "sel \<in> set (select_eligible d)" by simp
    from Inr Some have "draw_part0 e d = draw_write_part0 e sel d"
      by (simp add: draw_part0_def)
    with draw_write_part0_cases [of e sel d] mem show ?thesis
      by metis
  qed
qed

section \<open>Facts about the stock update\<close>

lemma update_remaining_nth:
  "i < length ps \<Longrightarrow> ps ! i = sel \<Longrightarrow> 0 < remaining_quantity sel \<Longrightarrow>
     update_remaining (prize_id sel) ps ! i = decrement sel"
  by (simp add: update_remaining_def)

lemma update_remaining_distinct:
  assumes "distinct (map prize_id ps)" and "i < length ps" and "ps ! i = sel"
    and "0 < remaining_quantity sel"
  shows "update_remaining (prize_id sel) ps = ps[i := decrement sel]"
proof (rule nth_equalityI)
  show "length (update_remaining (prize_id sel) ps) = length (ps[i := decrement sel])"
    by (simp add: update_remaining_def)
next
  fix j assume "j < length (update_remaining (prize_id sel) ps)"
  then have j: "j < length ps" by (simp add: update_remaining_def)
  show "update_remaining (prize_id sel) ps ! j = ps[i := decrement sel] ! j"
  proof (cases "j = i")
    case True
    with assms show ?thesis by (simp add: update_remaining_def)
  next
    case False
    with assms(1,2) j have "map prize_id ps ! j \<noteq> map prize_id ps ! i"
      by (simp add: nth_eq_iff_index_eq del: nth_map)
    with assms(2,3) j have "prize_id (ps ! j) \<noteq> prize_id sel" by simp
    with False j show ?thesis by (simp add: update_remaining_def)
  qed
qed


section \<open>Facts about a whole draw\<close>

lemma eligible_index:
  "sel \<in> set (select_eligible d) \<Longrightarrow>
     \<exists>i<length (prizes d). prizes d ! i = sel \<and> 0 < remaining_quantity sel"
  by (auto simp: select_eligible_def in_set_conv_nth)

lemma draw_index_success:
  assumes "response_of (draw_index e req d) = Success pt sel"
  shows "\<exists>pid n tx. pt = Some \<lparr>participant_id = pid, participant_name = n\<rparr>
    \<and> prizes tx = prizes d \<and> lottery_records tx = lottery_records d
    \<and> sel \<in> set (select_eligible d)
    \<and> draw_index e req d =
         Committed (Success pt sel)
           (update_prize (prize_id sel) (insert_record pid (prize_id sel) tx))"
  using draw_index_cases [of e req d] assms by (elim disjE exE) auto

lemma draw_index_failure:
  assumes "response_of (draw_index e req d) = Failure err"
  shows "final_db d (draw_index e req d) = d"
  using draw_index_cases [of e req d] assms by (elim disjE exE) auto

lemma draw_part0_success:
  assumes "response_of (draw_part0 e d) = Success pt sel"
  shows "pt = None \<and> sel \<in> set (select_eligible d)
    \<and> draw_part0 e d = Committed (Success pt sel) (update_prize (prize_id sel) d)"
  using draw_part0_cases [of e d] assms by (elim disjE exE) auto

lemma draw_part0_failure:
  assumes "response_of (draw_part0 e d) = Failure err"
  shows "final_db d (draw_part0 e d) = d"
  using draw_part0_cases [of e d] assms by (elim disjE exE) auto

lemma draw_part0_records: "lottery_records (final_db d (draw_part0 e d)) = lottery_records d"
  using draw_part0_cases [of e d] by (elim disjE exE) (auto simp: update_prize_def)

lemma one_decrementI:
  assumes "distinct (map prize_id (prizes d))" and "sel \<in> set (select_eligible d)"
    and "prizes d' = update_remaining (prize_id sel) (prizes d)"
  shows "one_decrement sel d d'"
proof -
  from eligible_index [OF assms(2)] obtain i where
    i: "i < length (prizes d)" "prizes d ! i = sel" "0 < remaining_quantity sel" by blast
  from update_remaining_distinct [OF assms(1) i] assms(3) i show ?thesis
    unfolding one_decrement_def by auto
qed

lemma no_eligible: "\<forall>p\<in>set (prizes d). \<not> 0 < remaining_quantity p \<Longrightarrow> select_eligible d = []"
  by (simp add: select_eligible_def filter_empty_conv)

lemma find_or_create_Inr_ex:
  "\<not> fails e SelectParticipant \<Longrightarrow>
   select_participants n d \<noteq> [] \<or> \<not> fails e InsertParticipant \<Longrightarrow>
     \<exists>pid tx. find_or_create e n d = Inr (pid, tx) \<and> prizes tx = prizes d"
  by (auto simp: find_or_create_def insert_participant_def split: list.splits)

lemma noop_update: "affected_rows k ps = 0 \<Longrightarrow> update_remaining k ps = ps"
  by (auto simp: affected_rows_def update_remaining_def filter_empty_conv intro!: map_idI)

section \<open>Facts about the writing parts and about a draw that runs alone\<close>

lemma update_remaining_at:
  assumes "distinct (map prize_id ps)" and "0 < affected_rows k ps"
  shows "\<exists>i<length ps. prize_id (ps ! i) = k \<and> 0 < remaining_quantity (ps ! i)
    \<and> update_remaining k ps = ps[i := decrement (ps ! i)]"
proof -
  from assms(2) have "filter (\<lambda>p. prize_id p = k \<and> 0 < remaining_quantity p) ps \<noteq> []"
    by (auto simp: affected_rows_def)
  then obtain p where "p \<in> set ps" "prize_id p = k" "0 < remaining_quantity p"
    by (auto simp: filter_empty_conv)
  then obtain i where i: "i < length ps" "ps ! i = p"
    by (auto simp: in_set_conv_nth)
  from update_remaining_distinct [OF assms(1) i \<open>0 < remaining_quantity p\<close>]
    i \<open>prize_id p = k\<close> \<open>0 < remaining_quantity p\<close>
  show ?thesis by auto
qed

lemma written_stock:
  assumes "distinct (map prize_id (prizes tx))"
    and "prizes tx' = update_remaining k (prizes tx)"
  shows "(0 < affected_rows k (prizes tx) \<longrightarrow> one_decrement_at k tx tx')
    \<and> (affected_rows k (prizes tx) = 0 \<longrightarrow> prizes tx' = prizes tx)"
  using update_remaining_at [OF assms(1), of k] noop_update [of k "prizes tx"] assms(2)
  unfolding one_decrement_at_def by auto

lemma written_rows:
  assumes "prizes tx' = update_remaining (prize_id sel) (prizes tx)"
  shows "length (prizes tx') = length (prizes tx)
    \<and> (\<forall>i<length (prizes tx). prize_id (prizes tx ! i) = prize_id sel \<longrightarrow>
          remaining_quantity (prizes tx' ! i) =
            (if 0 < remaining_quantity (prizes tx ! i)
             then remaining_quantity (prizes tx ! i) - 1
             else remaining_quantity (prizes tx ! i)))
    \<and> (\<forall>i<length (prizes tx). prizes tx ! i = sel \<and> 0 < remaining_quantity sel \<longrightarrow>
          remaining_quantity sel = remaining_quantity (prizes tx' ! i) + 1)"
  using assms by (auto simp: update_remaining_def decrement_def)

lemma draw_write_index_success:
  assumes "response_of (draw_write_index e pid n sel tx) = Success pt s"
  shows "pt = Some \<lparr>participant_id = pid, participant_name = n\<rparr> \<and> s = sel
    \<and> draw_write_index e pid n sel tx =
         Committed (Success pt s)
           (update_prize (prize_id sel) (insert_record pid (prize_id sel) tx))"
  using draw_write_index_cases [of e pid n sel tx] assms by (elim disjE) auto

lemma draw_write_index_failure:
  assumes "response_of (draw_write_index e pid n sel tx) = Failure err"
  shows "final_db d0 (draw_write_index e pid n sel tx) = d0"
  using draw_write_index_cases [of e pid n sel tx] assms by (elim disjE) auto

lemma draw_write_part0_success:
  assumes "response_of (draw_write_part0 e sel tx) = Success pt s"
  shows "pt = None \<and> s = sel
    \<and> draw_write_part0 e sel tx = Committed (Success pt s) (update_prize (prize_id sel) tx)"
  using draw_write_part0_cases [of e sel tx] assms by (elim disjE) auto

lemma draw_write_part0_failure:
  assumes "response_of (draw_write_part0 e sel tx) = Failure err"
  shows "final_db d0 (draw_write_part0 e sel tx) = d0"
  using draw_write_part0_cases [of e sel tx] assms by (elim disjE) auto

lemma draw_write_index_records:
  assumes "distinct (map prize_id (prizes tx))"
  shows "(\<forall>pt s. response_of (draw_write_index e pid n sel tx) = Success pt s \<longrightarrow>
        pt = Some \<lparr>participant_id = pid, participant_name = n\<rparr> \<and> s = sel
        \<and> lottery_records (final_db d (draw_write_index e pid n sel tx)) =
            lottery_records tx @ [\<lparr>record_participant_id = pid, record_prize_id = prize_id sel\<rparr>]
        \<and> (0 < affected_rows (prize_id sel) (prizes tx) \<longrightarrow>
              one_decrement_at (prize_id sel) tx (final_db d (draw_write_index e pid n sel tx)))
        \<and> (affected_rows (prize_id sel) (prizes tx) = 0 \<longrightarrow>
              prizes (final_db d (draw_write_index e pid n sel tx)) = prizes tx))
    \<and> (\<forall>err. response_of (draw_write_index e pid n sel tx) = Failure err \<longrightarrow>
          final_db d (draw_write_index e pid n sel tx) = d)"
proof (intro conjI allI impI)
  fix err assume "response_of (draw_write_index e pid n sel tx) = Failure err"
  then show "final_db d (draw_write_index e pid n sel tx) = d"
    by (rule draw_write_index_failure)
next
  fix pt s assume ok: "response_of (draw_write_index e pid n sel tx) = Success pt s"
  note w = draw_write_index_success [OF ok]
  from w show "pt = Some \<lparr>participant_id = pid, participant_name = n\<rparr>" and "s = sel"
    by simp_all
  from w show "lottery_records (final_db d (draw_write_index e pid n sel tx)) =
      lottery_records tx @ [\<lparr>record_participant_id = pid, record_prize_id = prize_id sel\<rparr>]"
    by (simp add: update_prize_def insert_record_def)
  from w have p: "prizes (final_db d (draw_write_index e pid n sel tx)) =
      update_remaining (prize_id sel) (prizes tx)"
    by (simp add: update_prize_def insert_record_def)
  note st = written_stock [OF assms p]
  { assume "0 < affected_rows (prize_id sel) (prizes tx)"
    with st show "one_decrement_at (prize_id sel) tx (final_db d (draw_write_index e pid n sel tx))"
      by blast }
  { assume "affected_rows (prize_id sel) (prizes tx) = 0"
    with st show "prizes (final_db d (draw_write_index e pid n sel tx)) = prizes tx"
      by blast }
qed

lemma draw_write_part0_records:
  assumes "distinct (map prize_id (prizes tx))"
  shows "(\<forall>pt s. response_of (draw_write_part0 e sel tx) = Success pt s \<longrightarrow>
        pt = None \<and> s = sel
        \<and> lottery_records (final_db d (draw_write_part0 e sel tx)) = lottery_records tx
        \<and> (0 < affected_rows (prize_id sel) (prizes tx) \<longrightarrow>
              one_decrement_at (prize_id sel) tx (final_db d (draw_write_part0 e sel tx)))
        \<and> (affected_rows (prize_id sel) (prizes tx) = 0 \<longrightarrow>
              prizes (final_db d (draw_write_part0 e sel tx)) = prizes tx))
    \<and> (\<forall>err. response_of (draw_write_part0 e sel tx) = Failure err \<longrightarrow>
          final_db d (draw_write_part0 e sel tx) = d)"
proof (intro conjI allI impI)
  fix err assume "response_of (draw_write_part0 e sel tx) = Failure err"
  then show "final_db d (draw_write_part0 e sel tx) = d"
    by (rule draw_write_part0_failure)
next
  fix pt s assume ok: "response_of (draw_write_part0 e sel tx) = Success pt s"
  note w = draw_write_part0_success [OF ok]
  from w show "pt = None" and "s = sel" by simp_all
  from w show "lottery_records (final_db d (draw_write_part0 e sel tx)) = lottery_records tx"
    by (simp add: update_prize_def)
  from w have p: "prizes (final_db d (draw_write_part0 e sel tx)) =
      update_remaining (prize_id sel) (prizes tx)"
    by (simp add: update_prize_def)
  note st = written_stock [OF assms p]
  { assume "0 < affected_rows (prize_id sel) (prizes tx)"
    with st show "one_decrement_at (prize_id sel) tx (final_db d (draw_write_part0 e sel tx))"
      by blast }
  { assume "affected_rows (prize_id sel) (prizes tx) = 0"
    with st show "prizes (final_db d (draw_write_part0 e sel tx)) = prizes tx"
      by blast }
qed

lemma draw_write_index_reports:
  assumes "response_of (draw_write_index e pid n sel tx) = Success pt s"
  shows "s = sel
    \<and> prizes (final_db d (draw_write_index e pid n sel tx)) =
        update_remaining (prize_id sel) (prizes tx)"
  using draw_write_index_success [OF assms]
  by (simp add: update_prize_def insert_record_def)

lemma draw_write_part0_reports:
  assumes "response_of (draw_write_part0 e sel tx) = Success pt s"
  shows "s = sel
    \<and> prizes (final_db d (draw_write_part0 e sel tx)) =
        update_remaining (prize_id sel) (prizes tx)"
  using draw_write_part0_success [OF assms]
  by (simp add: update_prize_def)

lemma draw_alone_records:
  assumes "distinct (map prize_id (prizes d))"
  shows "(\<forall>pt sel. response_of (draw_index e req d) = Success pt sel \<longrightarrow>
            (\<exists>par. pt = Some par
               \<and> lottery_records (final_db d (draw_index e req d)) =
                   lottery_records d
                   @ [\<lparr>record_participant_id = participant_id par,
                        record_prize_id = prize_id sel\<rparr>])
            \<and> one_decrement sel d (final_db d (draw_index e req d)))
    \<and> (\<forall>err. response_of (draw_index e req d) = Failure err \<longrightarrow>
          final_db d (draw_index e req d) = d)
    \<and> lottery_records (final_db d (draw_part0 e d)) = lottery_records d
    \<and> (\<forall>pt sel. response_of (draw_part0 e d) = Success pt sel \<longrightarrow>
          one_decrement sel d (final_db d (draw_part0 e d)))
    \<and> (\<forall>err. response_of (draw_part0 e d) = Failure err \<longrightarrow>
          final_db d (draw_part0 e d) = d)"
proof (intro conjI allI impI)
  fix pt sel assume ok: "response_of (draw_index e req d) = Success pt sel"
  from draw_index_success [OF ok] obtain pid n tx where
    s: "pt = Some \<lparr>participant_id = pid, participant_name = n\<rparr>"
      "prizes tx = prizes d" "lottery_records tx = lottery_records d"
      "sel \<in> set (select_eligible d)"
      "draw_index e req d =
         Committed (Success pt sel)
           (update_prize (prize_id sel) (insert_record pid (prize_id sel) tx))"
    by blast
  from s(1,3,5)
  show "\<exists>par. pt = Some par
      \<and> lottery_records (final_db d (draw_index e req d)) =
          lottery_records d
          @ [\<lparr>record_participant_id = participant_id par, record_prize_id = prize_id sel\<rparr>]"
    by (simp add: update_prize_def insert_record_def)
  from s(2,5) have "prizes (final_db d (draw_index e req d)) =
      update_remaining (prize_id sel) (prizes d)"
    by (simp add: update_prize_def insert_record_def)
  from one_decrementI [OF assms s(4) this]
  show "one_decrement sel d (final_db d (draw_index e req d))" .
next
  fix err assume "response_of (draw_index e req d) = Failure err"
  then show "final_db d (draw_index e req d) = d" by (rule draw_index_failure)
next
  show "lottery_records (final_db d (draw_part0 e d)) = lottery_records d"
    by (rule draw_part0_records)
next
  fix pt sel assume ok: "response_of (draw_part0 e d) = Success pt sel"
  from draw_part0_success [OF ok]
  have s: "sel \<in> set (select_eligible d)"
    "draw_part0 e d = Committed (Success pt sel) (update_prize (prize_id sel) d)"
    by simp_all
  from s(2) have "prizes (final_db d (draw_part0 e d)) =
      update_remaining (prize_id sel) (prizes d)"
    by (simp add: update_prize_def)
  from one_decrementI [OF assms s(1) this]
  show "one_decrement sel d (final_db d (draw_part0 e d))" .
next
  fix err assume "response_of (draw_part0 e d) = Failure err"
  then show "final_db d (draw_part0 e d) = d" by (rule draw_part0_failure)
qed

lemma draw_alone_reports:
  "(response_of (draw_index e req d) = Success pt sel \<longrightarrow>
      (\<exists>i<length (prizes d). prizes d ! i = sel
         \<and> prize_id (prizes (final_db d (draw_index e req d)) ! i) = prize_id sel
         \<and> remaining_quantity sel =
             remaining_quantity (prizes (final_db d (draw_index e req d)) ! i) + 1))
   \<and> (response_of (draw_part0 e d) = Success pt sel \<longrightarrow>
      (\<exists>i<length (prizes d). prizes d ! i = sel
         \<and> prize_id (prizes (final_db d (draw_part0 e d)) ! i) = prize_id sel
         \<and> remaining_quantity sel =
             remaining_quantity (prizes (final_db d (draw_part0 e d)) ! i) + 1))"
proof (intro conjI impI)
  assume ok: "response_of (draw_index e req d) = Success pt sel"
  from draw_index_success [OF ok] obtain pid n tx where
    s: "prizes tx = prizes d" "sel \<in> set (select_eligible d)"
      "draw_index e req d =
         Committed (Success pt sel)
           (update_prize (prize_id sel) (insert_record pid (prize_id sel) tx))"
    by blast
  from eligible_index [OF s(2)] obtain i where
    i: "i < length (prizes d)" "prizes d ! i = sel" "0 < remaining_quantity sel" by blast
  from s(1,3) update_remaining_nth [OF i]
  have "prizes (final_db d (draw_index e req d)) ! i = decrement sel"
    by (simp add: update_prize_def insert_record_def)
  with i(1,2) show "\<exists>i<length (prizes d). prizes d ! i = sel
         \<and> prize_id (prizes (final_db d (draw_index e req d)) ! i) = prize_id sel
         \<and> remaining_quantity sel =
             remaining_quantity (prizes (final_db d (draw_index e req d)) ! i) + 1"
    by (intro exI [of _ i]) (simp add: decrement_def)
next
  assume ok: "response_of (draw_part0 e d) = Success pt sel"
  from draw_part0_success [OF ok] have
    s: "sel \<in> set (select_eligible d)"
      "draw_part0 e d = Committed (Success pt sel) (update_prize (prize_id sel) d)"
    by simp_all
  from eligible_index [OF s(1)] obtain i where
    i: "i < length (prizes d)" "prizes d ! i = sel" "0 < remaining_quantity sel" by blast
  from s(2) update_remaining_nth [OF i]
  have "prizes (final_db d (draw_part0 e d)) ! i = decrement sel"
    by (simp add: update_prize_def)
  with i(1,2) show "\<exists>i<length (prizes d). prizes d ! i = sel
         \<and> prize_id (prizes (final_db d (draw_part0 e d)) ! i) = prize_id sel
         \<and> remaining_quantity sel =
             remaining_quantity (prizes (final_db d (draw_part0 e d)) ! i) + 1"
    by (intro exI [of _ i]) (simp add: decrement_def)
qed

section \<open>The random value and the total weight\<close>

text \<open>
  Claim C1, as the code has it. With \<^verbatim>\<open>Math.random()\<close> in \<open>[0, 1)\<close>: in
  \<^verbatim>\<open>src/index.ts\<close> the value the walk starts from lies in \<open>[0, 100)\<close>, whatever the
  weights of the eligible prizes are; in \<^verbatim>\<open>src/unnamed/part_000\<close> the total weight is
  the sum of \<^verbatim>\<open>total_quantity\<close> over the very list that is walked, and the value lies
  in \<open>[0, W)\<close> when that total \<open>W\<close> is positive.
\<close>

theorem random_value_range:
  assumes "0 \<le> u" and "u < 1"
  shows "0 \<le> random_index u \<and> random_index u < 100
    \<and> weightedRandom_index u ps = select_from probability (random_index u) ps
    \<and> totalWeight ps = spec_total_weight weight_part0 ps
    \<and> weightedRandom_part0 u ps = select_from weight_part0 (random_part0 u ps) ps
    \<and> (0 < totalWeight ps \<longrightarrow>
         0 \<le> random_part0 u ps \<and> random_part0 u ps < totalWeight ps)"
  using assms
  by (simp add: random_index_def random_part0_def totalWeight_sum
      weightedRandom_index_def weightedRandom_part0_def)

text \<open>
  The statement above at \<^verbatim>\<open>Math.random()\<close> = 1/2 on the example of the specification:
  the value is 50, below the total weight 100.
\<close>

theorem random_value_range_witness:
  "(0::real) \<le> 1/2 \<and> (1/2::real) < 1 \<and> 0 < totalWeight ex_prizes
   \<and> random_part0 (1/2) ex_prizes = 50 \<and> random_part0 (1/2) ex_prizes < totalWeight ex_prizes"
  using random_value_range [of "1/2" ex_prizes]
  by (simp add: random_part0_def totalWeight_def ex_prizes_def ex_prize_def weight_part0_def)

text \<open>
  Claim C1 as worded fails. In \<^verbatim>\<open>src/index.ts\<close>, with the first prize out of stock the
  eligible prizes weigh 90, and \<^verbatim>\<open>Math.random()\<close> = 19/20 gives the value 95. In
  \<^verbatim>\<open>src/unnamed/part_000\<close>, an eligible prize whose \<^verbatim>\<open>total_quantity\<close> is 0 gives the
  total weight 0 and the value 0, which is not below it.
\<close>

theorem random_value_range_counterexample:
  "select_eligible ex_db_exhausted = [ex_prize 2 90 5]
   \<and> spec_total_weight probability (select_eligible ex_db_exhausted) = 90
   \<and> random_index (19/20) = 95
   \<and> \<not> (0 \<le> random_index (19/20)
         \<and> random_index (19/20) < spec_total_weight probability (select_eligible ex_db_exhausted))
   \<and> select_eligible ex_db_weightless = [ex_prize 1 0 5]
   \<and> \<not> (0 \<le> random_part0 (1/2) (select_eligible ex_db_weightless)
         \<and> random_part0 (1/2) (select_eligible ex_db_weightless)
             < totalWeight (select_eligible ex_db_weightless))"
  by (simp add: select_eligible_def ex_db_exhausted_def ex_db_weightless_def ex_prize_def
      spec_total_weight_def random_index_def random_part0_def totalWeight_def weight_part0_def)

section \<open>The selection walk\<close>

text \<open>
  Claim C6. On a non-empty list, \<^verbatim>\<open>weightedRandom\<close> of either variant returns a prize
  of the list: the first one at which the running value, after that prize's weight has
  been subtracted, is at most 0, and the last prize of the list when the walk reaches the
  end of the list without that; the fallback is a result like any other.
\<close>

theorem weightedRandom_selects:
  assumes "ps \<noteq> []"
  shows "(\<exists>p. weightedRandom_index u ps = Some p \<and> p \<in> set ps
            \<and> selects probability (random_index u) ps p)
    \<and> (\<exists>p. weightedRandom_part0 u ps = Some p \<and> p \<in> set ps
            \<and> selects weight_part0 (random_part0 u ps) ps p)"
  unfolding weightedRandom_index_def weightedRandom_part0_def
  using select_from_selects [OF assms] by blast

text \<open>
  The statement above on weights 10 and 20. In \<^verbatim>\<open>src/index.ts\<close> the value 50 outlasts
  both prizes and the last one is returned; in \<^verbatim>\<open>src/unnamed/part_000\<close> the value is 15
  and the second prize is the first to bring it to 0 or below.
\<close>

theorem weightedRandom_selects_witness:
  "ex_prizes_short \<noteq> []
   \<and> walk probability (random_index (1/2)) ex_prizes_short = None
   \<and> weightedRandom_index (1/2) ex_prizes_short = Some (last ex_prizes_short)
   \<and> selects probability (random_index (1/2)) ex_prizes_short (ex_prize 2 20 5)
   \<and> weightedRandom_part0 (1/2) ex_prizes_short = Some (ex_prize 2 20 5)
   \<and> selects weight_part0 (random_part0 (1/2) ex_prizes_short) ex_prizes_short
        (ex_prize 2 20 5)"
proof -
  have n: "ex_prizes_short \<noteq> []" by (simp add: ex_prizes_short_def)
  have w: "walk probability (random_index (1/2)) ex_prizes_short = None"
    by (simp add: ex_defs handler_defs)
  have a: "weightedRandom_index (1/2) ex_prizes_short = Some (ex_prize 2 20 5)"
    by (simp add: ex_defs handler_defs)
  have b: "weightedRandom_part0 (1/2) ex_prizes_short = Some (ex_prize 2 20 5)"
    by (simp add: ex_defs handler_defs)
  have l: "last ex_prizes_short = ex_prize 2 20 5" by (simp add: ex_prizes_short_def)
  from weightedRandom_selects [OF n, of "1/2"] n w a b l show ?thesis
    by simp
qed

text \<open>
  Claim C7. On the prizes with weights 10 and 90, in that order, and the value 5, the
  running value after the first prize is \<open>5 - 10 = -5\<close>, the walk returns the first
  prize, whose key is 1, and so does \<^verbatim>\<open>weightedRandom\<close> of either variant when
  \<^verbatim>\<open>Math.random()\<close> is 1/20, which makes the value 5 in both.
\<close>

theorem weightedRandom_example:
  "running probability 5 ex_prizes 1 = 5 - 10
   \<and> running probability 5 ex_prizes 1 = -5
   \<and> walk probability 5 ex_prizes = Some (ex_prize 1 10 5)
   \<and> random_index (1/20) = 5
   \<and> weightedRandom_index (1/20) ex_prizes = Some (ex_prize 1 10 5)
   \<and> totalWeight ex_prizes = 100
   \<and> random_part0 (1/20) ex_prizes = 5
   \<and> weightedRandom_part0 (1/20) ex_prizes = Some (ex_prize 1 10 5)
   \<and> ex_prizes ! 0 = ex_prize 1 10 5
   \<and> prize_id (ex_prize 1 10 5) = 1"
  by (simp add: running_def ex_prizes_def ex_prize_def random_index_def random_part0_def
      weightedRandom_index_def weightedRandom_part0_def select_from_def totalWeight_def
      weight_part0_def)

text \<open>
  Claim C10. Whenever a handler gets as far as calling \<^verbatim>\<open>weightedRandom\<close>, the list it
  passes is not empty, the read \<^verbatim>\<open>prizes[prizes.length - 1]\<close> of the fallback is inside
  that list, \<^verbatim>\<open>weightedRandom\<close> returns a prize and the handler goes on with it. When the
  handler returns before, it does not call \<^verbatim>\<open>weightedRandom\<close>. On the empty list
  \<^verbatim>\<open>weightedRandom\<close> would return \<^verbatim>\<open>undefined\<close>.
\<close>

theorem weightedRandom_nonempty_argument:
  "(draw_read_index e req d = Inr (pid, n, tx, ps) \<longrightarrow>
      ps \<noteq> [] \<and> js_index ps (int (length ps) - 1) = Some (last ps)
      \<and> (\<exists>sel. weightedRandom_index (random e) ps = Some sel
            \<and> draw_index e req d = draw_write_index e pid n sel tx))
   \<and> (draw_read_part0 e d = Inr ps \<longrightarrow>
      ps \<noteq> [] \<and> js_index ps (int (length ps) - 1) = Some (last ps)
      \<and> (\<exists>sel. weightedRandom_part0 (random e) ps = Some sel
            \<and> draw_part0 e d = draw_write_part0 e sel d))
   \<and> (draw_read_index e req d = Inl out \<longrightarrow> draw_index e req d = out)
   \<and> (draw_read_part0 e d = Inl out \<longrightarrow> draw_part0 e d = out)
   \<and> weightedRandom_index u [] = None \<and> weightedRandom_part0 u [] = None"
proof (intro conjI impI)
  assume rd: "draw_read_index e req d = Inr (pid, n, tx, ps)"
  from draw_read_index_Inr [OF rd] show ne: "ps \<noteq> []" by blast
  then show "js_index ps (int (length ps) - 1) = Some (last ps)" by (rule js_index_last)
  from select_from_selects [OF ne, of probability "random_index (random e)"]
  obtain sel where "weightedRandom_index (random e) ps = Some sel"
    by (auto simp: weightedRandom_index_def)
  with rd show "\<exists>sel. weightedRandom_index (random e) ps = Some sel
            \<and> draw_index e req d = draw_write_index e pid n sel tx"
    by (simp add: draw_index_def)
next
  assume rd: "draw_read_part0 e d = Inr ps"
  from draw_read_part0_Inr [OF rd] show ne: "ps \<noteq> []" by blast
  then show "js_index ps (int (length ps) - 1) = Some (last ps)" by (rule js_index_last)
  from select_from_selects [OF ne, of weight_part0 "random_part0 (random e) ps"]
  obtain sel where "weightedRandom_part0 (random e) ps = Some sel"
    by (auto simp: weightedRandom_part0_def)
  with rd show "\<exists>sel. weightedRandom_part0 (random e) ps = Some sel
            \<and> draw_part0 e d = draw_write_part0 e sel d"
    by (simp add: draw_part0_def)
next
  assume "draw_read_index e req d = Inl out"
  then show "draw_index e req d = out" by (simp add: draw_index_def)
next
  assume "draw_read_part0 e d = Inl out"
  then show "draw_part0 e d = out" by (simp add: draw_part0_def)
next
  show "weightedRandom_index u [] = None"
    by (simp add: weightedRandom_index_def select_from_def js_index_def)
  show "weightedRandom_part0 u [] = None"
    by (simp add: weightedRandom_part0_def select_from_def js_index_def)
qed

text \<open>
  The statement above on two stores: with prizes in stock the handler of
  \<^verbatim>\<open>src/index.ts\<close> passes both of them to \<^verbatim>\<open>weightedRandom\<close>; with none it answers
  400 and makes no call.
\<close>

theorem weightedRandom_nonempty_argument_witness:
  "draw_read_index (ex_env (1/20)) ex_request ex_db =
     Inr (1, ''ann'', insert_participant 1 ''ann'' ex_db, ex_prizes)
   \<and> ex_prizes \<noteq> []
   \<and> js_index ex_prizes (int (length ex_prizes) - 1) = Some (last ex_prizes)
   \<and> draw_read_index (ex_env (1/20)) ex_request ex_db_empty =
       Inl (RolledBack (Failure NoPrizesAvailable))
   \<and> draw_index (ex_env (1/20)) ex_request ex_db_empty =
       RolledBack (Failure NoPrizesAvailable)"
proof -
  have a: "draw_read_index (ex_env (1/20)) ex_request ex_db =
     Inr (1, ''ann'', insert_participant 1 ''ann'' ex_db, ex_prizes)"
    by (simp add: ex_defs handler_defs)
  have b: "draw_read_index (ex_env (1/20)) ex_request ex_db_empty =
       Inl (RolledBack (Failure NoPrizesAvailable))"
    by (simp add: ex_defs handler_defs)
  from weightedRandom_nonempty_argument [of "ex_env (1/20)" ex_request ex_db 1 "''ann''"
      "insert_participant 1 ''ann'' ex_db" ex_prizes]
    weightedRandom_nonempty_argument [of "ex_env (1/20)" ex_request ex_db_empty _ _ _ _
      "RolledBack (Failure NoPrizesAvailable)"]
    a b
  show ?thesis by simp
qed

section \<open>Records and stock written by a draw\<close>

text \<open>
  Claim C2, as the code has it. The writing part of \<^verbatim>\<open>src/index.ts\<close>, on whatever the
  store holds when it runs and with prize keys unique, either answers 200 and has then
  added exactly one row to \<^verbatim>\<open>lottery_records\<close>, for the participant and the prize of
  the response, or answers with an error and leaves the store as it was before the draw.
  The record comes with exactly one inventory decrement when the row of the selected
  prize is in stock as the update runs, and with none when it is not. The writing part
  of \<^verbatim>\<open>src/unnamed/part_000\<close> never adds a record, and decrements in the same way. For a
  draw that runs alone, with no other writer between its read and its update, the row
  is always in stock: such a draw of \<^verbatim>\<open>src/index.ts\<close> that answers 200 leaves one
  record and one decrement, such a draw of \<^verbatim>\<open>src/unnamed/part_000\<close> one decrement and
  no record, and a draw of either that answers with an error leaves the store as it was.
\<close>

theorem draw_record_count:
  assumes "distinct (map prize_id (prizes d))" and "distinct (map prize_id (prizes tx))"
  shows "((\<forall>pt s. response_of (draw_write_index e pid n sel tx) = Success pt s \<longrightarrow>
        pt = Some \<lparr>participant_id = pid, participant_name = n\<rparr> \<and> s = sel
        \<and> lottery_records (final_db d (draw_write_index e pid n sel tx)) =
            lottery_records tx @ [\<lparr>record_participant_id = pid, record_prize_id = prize_id sel\<rparr>]
        \<and> (0 < affected_rows (prize_id sel) (prizes tx) \<longrightarrow>
              one_decrement_at (prize_id sel) tx (final_db d (draw_write_index e pid n sel tx)))
        \<and> (affected_rows (prize_id sel) (prizes tx) = 0 \<longrightarrow>
              prizes (final_db d (draw_write_index e pid n sel tx)) = prizes tx))
    \<and> (\<forall>err. response_of (draw_write_index e pid n sel tx) = Failure err \<longrightarrow>
          final_db d (draw_write_index e pid n sel tx) = d))
   \<and> ((\<forall>pt s. response_of (draw_write_part0 e sel tx) = Success pt s \<longrightarrow>
        pt = None \<and> s = sel
        \<and> lottery_records (final_db d (draw_write_part0 e sel tx)) = lottery_records tx
        \<and> (0 < affected_rows (prize_id sel) (prizes tx) \<longrightarrow>
              one_decrement_at (prize_id sel) tx (final_db d (draw_write_part0 e sel tx)))
        \<and> (affected_rows (prize_id sel) (prizes tx) = 0 \<longrightarrow>
              prizes (final_db d (draw_write_part0 e sel tx)) = prizes tx))
    \<and> (\<forall>err. response_of (draw_write_part0 e sel tx) = Failure err \<longrightarrow>
          final_db d (draw_write_part0 e sel tx) = d))
   \<and> ((\<forall>pt sel. response_of (draw_index e req d) = Success pt sel \<longrightarrow>
            (\<exists>par. pt = Some par
               \<and> lottery_records (final_db d (draw_index e req d)) =
                   lottery_records d
                   @ [\<lparr>record_participant_id = participant_id par,
                        record_prize_id = prize_id sel\<rparr>])
            \<and> one_decrement sel d (final_db d (draw_index e req d)))
    \<and> (\<forall>err. response_of (draw_index e req d) = Failure err \<longrightarrow>
          final_db d (draw_index e req d) = d)
    \<and> lottery_records (final_db d (draw_part0 e d)) = lottery_records d
    \<and> (\<forall>pt sel. response_of (draw_part0 e d) = Success pt sel \<longrightarrow>
          one_decrement sel d (final_db d (draw_part0 e d)))
    \<and> (\<forall>err. response_of (draw_part0 e d) = Failure err \<longrightarrow>
          final_db d (draw_part0 e d) = d))"
  by (intro conjI draw_write_index_records [OF assms(2)] draw_write_part0_records [OF assms(2)]
      draw_alone_records [OF assms(1)])

text \<open>
  The statement above at three runs of \<^verbatim>\<open>src/index.ts\<close>: a draw alone on the example
  of the specification, which leaves one record and one decrement; the writing part for
  the first prize on the store where that prize is out of stock, which leaves one record
  and no decrement; and the writing part for the second prize on that store, which
  leaves one decrement.
\<close>

theorem draw_record_count_witness:
  "distinct (map prize_id (prizes ex_db))
   \<and> distinct (map prize_id (prizes ex_db_exhausted))
   \<and> response_of (draw_index (ex_env (1/20)) ex_request ex_db) =
       Success (Some \<lparr>participant_id = 1, participant_name = ''ann''\<rparr>) (ex_prize 1 10 5)
   \<and> lottery_records (final_db ex_db (draw_index (ex_env (1/20)) ex_request ex_db)) =
       [\<lparr>record_participant_id = 1, record_prize_id = 1\<rparr>]
   \<and> one_decrement (ex_prize 1 10 5) ex_db
       (final_db ex_db (draw_index (ex_env (1/20)) ex_request ex_db))
   \<and> response_of (draw_write_index (ex_env (1/20)) 1 ''ann'' (ex_prize 1 10 5) ex_db_exhausted) =
       Success (Some \<lparr>participant_id = 1, participant_name = ''ann''\<rparr>) (ex_prize 1 10 5)
   \<and> affected_rows (prize_id (ex_prize 1 10 5)) (prizes ex_db_exhausted) = 0
   \<and> lottery_records (final_db ex_db
        (draw_write_index (ex_env (1/20)) 1 ''ann'' (ex_prize 1 10 5) ex_db_exhausted)) =
       [\<lparr>record_participant_id = 1, record_prize_id = 1\<rparr>]
   \<and> prizes (final_db ex_db
        (draw_write_index (ex_env (1/20)) 1 ''ann'' (ex_prize 1 10 5) ex_db_exhausted)) =
       prizes ex_db_exhausted
   \<and> response_of (draw_write_index (ex_env (1/20)) 1 ''ann'' (ex_prize 2 90 5) ex_db_exhausted) =
       Success (Some \<lparr>participant_id = 1, participant_name = ''ann''\<rparr>) (ex_prize 2 90 5)
   \<and> 0 < affected_rows (prize_id (ex_prize 2 90 5)) (prizes ex_db_exhausted)
   \<and> one_decrement_at 2 ex_db_exhausted (final_db ex_db
        (draw_write_index (ex_env (1/20)) 1 ''ann'' (ex_prize 2 90 5) ex_db_exhausted))"
proof -
  have d: "distinct (map prize_id (prizes ex_db))"
    and x: "distinct (map prize_id (prizes ex_db_exhausted))"
    by (simp_all add: ex_defs)
  have r: "response_of (draw_index (ex_env (1/20)) ex_request ex_db) =
       Success (Some \<lparr>participant_id = 1, participant_name = ''ann''\<rparr>) (ex_prize 1 10 5)"
    by (simp add: ex_defs handler_defs)
  have w: "response_of
        (draw_write_index (ex_env (1/20)) 1 ''ann'' (ex_prize 1 10 5) ex_db_exhausted) =
       Success (Some \<lparr>participant_id = 1, participant_name = ''ann''\<rparr>) (ex_prize 1 10 5)"
    by (simp add: ex_defs handler_defs)
  have w2: "response_of
        (draw_write_index (ex_env (1/20)) 1 ''ann'' (ex_prize 2 90 5) ex_db_exhausted) =
       Success (Some \<lparr>participant_id = 1, participant_name = ''ann''\<rparr>) (ex_prize 2 90 5)"
    by (simp add: ex_defs handler_defs)
  have a: "affected_rows (prize_id (ex_prize 1 10 5)) (prizes ex_db_exhausted) = 0"
    by (simp add: affected_rows_def ex_defs)
  have a2: "0 < affected_rows (prize_id (ex_prize 2 90 5)) (prizes ex_db_exhausted)"
    by (simp add: affected_rows_def ex_defs)
  have l: "lottery_records ex_db = []" "lottery_records ex_db_exhausted = []"
    by (simp_all add: ex_defs)
  have k: "prize_id (ex_prize 1 10 5) = 1" "prize_id (ex_prize 2 90 5) = 2"
    by (simp_all add: ex_prize_def)
  note t1 = draw_record_count
    [OF d x, of "ex_env (1/20)" 1 "''ann''" "ex_prize 1 10 5" ex_request]
  note t2 = draw_record_count
    [OF d x, of "ex_env (1/20)" 1 "''ann''" "ex_prize 2 90 5" ex_request]
  from t1 [THEN conjunct1, THEN conjunct1, rule_format, OF w] a l k
  have c1: "lottery_records (final_db ex_db
        (draw_write_index (ex_env (1/20)) 1 ''ann'' (ex_prize 1 10 5) ex_db_exhausted)) =
       [\<lparr>record_participant_id = 1, record_prize_id = 1\<rparr>]
     \<and> prizes (final_db ex_db
        (draw_write_index (ex_env (1/20)) 1 ''ann'' (ex_prize 1 10 5) ex_db_exhausted)) =
       prizes ex_db_exhausted"
    by simp
  from t2 [THEN conjunct1, THEN conjunct1, rule_format, OF w2] a2 k
  have c2: "one_decrement_at 2 ex_db_exhausted (final_db ex_db
        (draw_write_index (ex_env (1/20)) 1 ''ann'' (ex_prize 2 90 5) ex_db_exhausted))"
    by simp
  from t1 [THEN conjunct2, THEN conjunct2, THEN conjunct1, rule_format, OF r] l k
  have c3: "lottery_records (final_db ex_db (draw_index (ex_env (1/20)) ex_request ex_db)) =
       [\<lparr>record_participant_id = 1, record_prize_id = 1\<rparr>]
     \<and> one_decrement (ex_prize 1 10 5) ex_db
       (final_db ex_db (draw_index (ex_env (1/20)) ex_request ex_db))"
    by simp
  from d x r w w2 a a2 c1 c2 c3 show ?thesis by blast
qed

text \<open>
  Claim C2 as worded fails. In \<^verbatim>\<open>src/unnamed/part_000\<close>, on the example of the
  specification, the draw answers 200 with the first prize and the records are those
  from before the draw. In \<^verbatim>\<open>src/index.ts\<close>, when the first prize was read in stock and
  is out of stock as the update runs, the writing part answers 200 and adds a record,
  and the prize table is unchanged.
\<close>

theorem draw_record_count_counterexample:
  "response_of (draw_part0 (ex_env (1/20)) ex_db) = Success None (ex_prize 1 10 5)
   \<and> lottery_records (final_db ex_db (draw_part0 (ex_env (1/20)) ex_db)) = lottery_records ex_db
   \<and> length (lottery_records (final_db ex_db (draw_part0 (ex_env (1/20)) ex_db)))
       \<noteq> length (lottery_records ex_db) + 1
   \<and> response_of (draw_write_index (ex_env (1/20)) 1 ''ann'' (ex_prize 1 10 5) ex_db_exhausted) =
       Success (Some \<lparr>participant_id = 1, participant_name = ''ann''\<rparr>) (ex_prize 1 10 5)
   \<and> length (lottery_records (final_db ex_db
        (draw_write_index (ex_env (1/20)) 1 ''ann'' (ex_prize 1 10 5) ex_db_exhausted))) =
       length (lottery_records ex_db_exhausted) + 1
   \<and> prizes (final_db ex_db
        (draw_write_index (ex_env (1/20)) 1 ''ann'' (ex_prize 1 10 5) ex_db_exhausted)) =
       prizes ex_db_exhausted"
  by (simp add: ex_defs handler_defs)

text \<open>
  Claim C3. When no prize has a positive \<^verbatim>\<open>remaining_quantity\<close>, a draw of either
  variant leaves the store as it was: no record, no decrement, no participant. When the
  handler gets to read the prizes, that is, the statements it runs before the read and
  the read itself do not throw and, in \<^verbatim>\<open>src/index.ts\<close>, a name was sent, it rolls
  back and answers 400 for the lack of prizes.
\<close>

theorem no_prizes_no_mutation:
  assumes "\<forall>p\<in>set (prizes d). \<not> 0 < remaining_quantity p"
  shows "final_db d (draw_index e req d) = d \<and> final_db d (draw_part0 e d) = d
    \<and> (\<not> fails e BeginTransaction \<and> participantName req = Some n \<and> n \<noteq> []
        \<and> \<not> fails e SelectParticipant
        \<and> (select_participants n d \<noteq> [] \<or> \<not> fails e InsertParticipant)
        \<and> \<not> fails e SelectPrizes \<longrightarrow>
          draw_index e req d = RolledBack (Failure NoPrizesAvailable))
    \<and> (\<not> fails e BeginTransaction \<and> \<not> fails e SelectPrizes \<longrightarrow>
          draw_part0 e d = RolledBack (Failure NoPrizesAvailable))
    \<and> http_status (Failure NoPrizesAvailable) = 400"
proof -
  from assms have none: "select_eligible d = []" by (rule no_eligible)
  have a: "final_db d (draw_index e req d) = d"
    using draw_index_cases [of e req d] none by (elim disjE exE) auto
  have b: "final_db d (draw_part0 e d) = d"
    using draw_part0_cases [of e d] none by (elim disjE exE) auto
  have c: "draw_index e req d = RolledBack (Failure NoPrizesAvailable)"
    if h: "\<not> fails e BeginTransaction \<and> participantName req = Some n \<and> n \<noteq> []
        \<and> \<not> fails e SelectParticipant
        \<and> (select_participants n d \<noteq> [] \<or> \<not> fails e InsertParticipant)
        \<and> \<not> fails e SelectPrizes"
  proof -
    from h find_or_create_Inr_ex [of e n d] obtain pid tx where
      foc: "find_or_create e n d = Inr (pid, tx)" "prizes tx = prizes d" by blast
    from foc(2) none have "select_eligible tx = []" by (simp add: select_eligible_def)
    with h have "fetch_eligible e tx = Inl (RolledBack (Failure NoPrizesAvailable))"
      by (simp add: fetch_eligible_def)
    with h foc(1) show ?thesis
      by (simp add: draw_index_def draw_read_index_def)
  qed
  have e: "draw_part0 e d = RolledBack (Failure NoPrizesAvailable)"
    if "\<not> fails e BeginTransaction \<and> \<not> fails e SelectPrizes"
    using that none by (simp add: draw_part0_def draw_read_part0_def fetch_eligible_def)
  from a b c e show ?thesis by simp
qed

text \<open>
  The statement above on the store with both prizes out of stock, a name sent and no
  statement throwing.
\<close>

theorem no_prizes_no_mutation_witness:
  "list_all (\<lambda>p. \<not> 0 < remaining_quantity p) (prizes ex_db_empty)
   \<and> draw_index (ex_env (1/2)) ex_request ex_db_empty = RolledBack (Failure NoPrizesAvailable)
   \<and> draw_part0 (ex_env (1/2)) ex_db_empty = RolledBack (Failure NoPrizesAvailable)
   \<and> final_db ex_db_empty (draw_index (ex_env (1/2)) ex_request ex_db_empty) = ex_db_empty"
proof -
  have h: "\<forall>p\<in>set (prizes ex_db_empty). \<not> 0 < remaining_quantity p"
    by (simp add: ex_db_empty_def ex_prize_def)
  from no_prizes_no_mutation [OF h, of "ex_env (1/2)" ex_request "''ann''"] h show ?thesis
    by (simp add: ex_env_def ex_request_def list_all_iff)
qed



text \<open>
  Claim C5, as the code has it. The handlers do not read the number of rows the update
  reports. When the update changes no row, because the row of the selected prize holds
  no positive \<^verbatim>\<open>remaining_quantity\<close> when the update runs, and no statement throws, the
  writing part of either handler commits and answers 200 with the selected prize; in
  \<^verbatim>\<open>src/index.ts\<close> the record of the draw is committed with it.
\<close>

theorem noop_decrement_commits:
  assumes "affected_rows (prize_id sel) (prizes tx) = 0"
    and "\<not> fails e InsertRecord" and "\<not> fails e UpdatePrize" and "\<not> fails e CommitTransaction"
  shows "draw_write_index e pid n sel tx =
       Committed (Success (Some \<lparr>participant_id = pid, participant_name = n\<rparr>) sel)
         (insert_record pid (prize_id sel) tx)
    \<and> draw_write_part0 e sel tx = Committed (Success None sel) tx"
proof -
  from assms(1) have "update_remaining (prize_id sel) (prizes tx) = prizes tx"
    by (rule noop_update)
  then have "update_prize (prize_id sel) (insert_record pid (prize_id sel) tx) =
        insert_record pid (prize_id sel) tx"
      and "update_prize (prize_id sel) tx = tx"
    by (simp_all add: update_prize_def insert_record_def)
  with assms(2-) show ?thesis
    by (simp add: draw_write_index_def draw_write_part0_def)
qed

text \<open>
  The statement above for a prize that was read with five units left and whose row is at
  0 when the update runs.
\<close>

theorem noop_decrement_commits_witness:
  "affected_rows (prize_id (ex_prize 1 10 5)) (prizes ex_db_exhausted) = 0
   \<and> response_of (draw_write_index (ex_env (1/20)) 1 ''ann'' (ex_prize 1 10 5) ex_db_exhausted)
       = Success (Some \<lparr>participant_id = 1, participant_name = ''ann''\<rparr>) (ex_prize 1 10 5)
   \<and> response_of (draw_write_part0 (ex_env (1/20)) (ex_prize 1 10 5) ex_db_exhausted)
       = Success None (ex_prize 1 10 5)"
proof -
  have h: "affected_rows (prize_id (ex_prize 1 10 5)) (prizes ex_db_exhausted) = 0"
    by (simp add: affected_rows_def ex_db_exhausted_def ex_prize_def)
  have f: "\<not> fails (ex_env (1/20)) InsertRecord" "\<not> fails (ex_env (1/20)) UpdatePrize"
    "\<not> fails (ex_env (1/20)) CommitTransaction"
    by (simp_all add: ex_env_def)
  from noop_decrement_commits [OF h f, of 1 "''ann''"] h show ?thesis by simp
qed

text \<open>
  Claim C5 as worded fails: for that prize and that store the update changes no row, and
  the writing part of \<^verbatim>\<open>src/index.ts\<close> commits the record and answers 200, the one of
  \<^verbatim>\<open>src/unnamed/part_000\<close> commits and answers 200; neither rolls back.
\<close>

theorem noop_decrement_counterexample:
  "affected_rows (prize_id (ex_prize 1 10 5)) (prizes ex_db_exhausted) = 0
   \<and> draw_write_index (ex_env (1/20)) 1 ''ann'' (ex_prize 1 10 5) ex_db_exhausted =
       Committed (Success (Some \<lparr>participant_id = 1, participant_name = ''ann''\<rparr>)
                    (ex_prize 1 10 5))
         (ex_db_exhausted\<lparr>lottery_records :=
            [\<lparr>record_participant_id = 1, record_prize_id = 1\<rparr>]\<rparr>)
   \<and> http_status (response_of
        (draw_write_index (ex_env (1/20)) 1 ''ann'' (ex_prize 1 10 5) ex_db_exhausted)) = 200
   \<and> draw_write_part0 (ex_env (1/20)) (ex_prize 1 10 5) ex_db_exhausted =
       Committed (Success None (ex_prize 1 10 5)) ex_db_exhausted"
  by (simp add: affected_rows_def ex_defs handler_defs)

text \<open>
  Claim C9, as the code has it. A draw of either variant that answers 200 answers with
  the prize object as it was selected; the update does not touch it. In the store, a
  row with the key of that prize ends one below what it held as the update ran when
  that was positive, and as it was otherwise. So the \<^verbatim>\<open>remaining_quantity\<close> of the
  response is one more than the stored one when the row is, as the update runs, still
  what was read. That is the case for a draw that runs alone, with no other writer
  between its read and its update.
\<close>

theorem response_prize_before_decrement:
  "(response_of (draw_write_index e pid n sel tx) = Success pt s \<longrightarrow>
      s = sel
      \<and> length (prizes (final_db d (draw_write_index e pid n sel tx))) = length (prizes tx)
      \<and> (\<forall>i<length (prizes tx). prize_id (prizes tx ! i) = prize_id sel \<longrightarrow>
            remaining_quantity (prizes (final_db d (draw_write_index e pid n sel tx)) ! i) =
              (if 0 < remaining_quantity (prizes tx ! i)
               then remaining_quantity (prizes tx ! i) - 1
               else remaining_quantity (prizes tx ! i)))
      \<and> (\<forall>i<length (prizes tx). prizes tx ! i = sel \<and> 0 < remaining_quantity sel \<longrightarrow>
            remaining_quantity sel =
              remaining_quantity (prizes (final_db d (draw_write_index e pid n sel tx)) ! i) + 1))
   \<and> (response_of (draw_write_part0 e sel tx) = Success pt s \<longrightarrow>
      s = sel
      \<and> length (prizes (final_db d (draw_write_part0 e sel tx))) = length (prizes tx)
      \<and> (\<forall>i<length (prizes tx). prize_id (prizes tx ! i) = prize_id sel \<longrightarrow>
            remaining_quantity (prizes (final_db d (draw_write_part0 e sel tx)) ! i) =
              (if 0 < remaining_quantity (prizes tx ! i)
               then remaining_quantity (prizes tx ! i) - 1
               else remaining_quantity (prizes tx ! i)))
      \<and> (\<forall>i<length (prizes tx). prizes tx ! i = sel \<and> 0 < remaining_quantity sel \<longrightarrow>
            remaining_quantity sel =
              remaining_quantity (prizes (final_db d (draw_write_part0 e sel tx)) ! i) + 1))
   \<and> ((response_of (draw_index e req d) = Success pt sel \<longrightarrow>
      (\<exists>i<length (prizes d). prizes d ! i = sel
         \<and> prize_id (prizes (final_db d (draw_index e req d)) ! i) = prize_id sel
         \<and> remaining_quantity sel =
             remaining_quantity (prizes (final_db d (draw_index e req d)) ! i) + 1))
   \<and> (response_of (draw_part0 e d) = Success pt sel \<longrightarrow>
      (\<exists>i<length (prizes d). prizes d ! i = sel
         \<and> prize_id (prizes (final_db d (draw_part0 e d)) ! i) = prize_id sel
         \<and> remaining_quantity sel =
             remaining_quantity (prizes (final_db d (draw_part0 e d)) ! i) + 1)))"
proof (intro conjI)
  show "response_of (draw_write_index e pid n sel tx) = Success pt s \<longrightarrow>
      s = sel
      \<and> length (prizes (final_db d (draw_write_index e pid n sel tx))) = length (prizes tx)
      \<and> (\<forall>i<length (prizes tx). prize_id (prizes tx ! i) = prize_id sel \<longrightarrow>
            remaining_quantity (prizes (final_db d (draw_write_index e pid n sel tx)) ! i) =
              (if 0 < remaining_quantity (prizes tx ! i)
               then remaining_quantity (prizes tx ! i) - 1
               else remaining_quantity (prizes tx ! i)))
      \<and> (\<forall>i<length (prizes tx). prizes tx ! i = sel \<and> 0 < remaining_quantity sel \<longrightarrow>
            remaining_quantity sel =
              remaining_quantity (prizes (final_db d (draw_write_index e pid n sel tx)) ! i) + 1)"
  proof
    assume ok: "response_of (draw_write_index e pid n sel tx) = Success pt s"
    from draw_write_index_reports [OF ok, of d] written_rows show
      "s = sel
      \<and> length (prizes (final_db d (draw_write_index e pid n sel tx))) = length (prizes tx)
      \<and> (\<forall>i<length (prizes tx). prize_id (prizes tx ! i) = prize_id sel \<longrightarrow>
            remaining_quantity (prizes (final_db d (draw_write_index e pid n sel tx)) ! i) =
              (if 0 < remaining_quantity (prizes tx ! i)
               then remaining_quantity (prizes tx ! i) - 1
               else remaining_quantity (prizes tx ! i)))
      \<and> (\<forall>i<length (prizes tx). prizes tx ! i = sel \<and> 0 < remaining_quantity sel \<longrightarrow>
            remaining_quantity sel =
              remaining_quantity (prizes (final_db d (draw_write_index e pid n sel tx)) ! i) + 1)"
      by blast
  qed
  show "response_of (draw_write_part0 e sel tx) = Success pt s \<longrightarrow>
      s = sel
      \<and> length (prizes (final_db d (draw_write_part0 e sel tx))) = length (prizes tx)
      \<and> (\<forall>i<length (prizes tx). prize_id (prizes tx ! i) = prize_id sel \<longrightarrow>
            remaining_quantity (prizes (final_db d (draw_write_part0 e sel tx)) ! i) =
              (if 0 < remaining_quantity (prizes tx ! i)
               then remaining_quantity (prizes tx ! i) - 1
               else remaining_quantity (prizes tx ! i)))
      \<and> (\<forall>i<length (prizes tx). prizes tx ! i = sel \<and> 0 < remaining_quantity sel \<longrightarrow>
            remaining_quantity sel =
              remaining_quantity (prizes (final_db d (draw_write_part0 e sel tx)) ! i) + 1)"
  proof
    assume ok: "response_of (draw_write_part0 e sel tx) = Success pt s"
    from draw_write_part0_reports [OF ok, of d] written_rows show
      "s = sel
      \<and> length (prizes (final_db d (draw_write_part0 e sel tx))) = length (prizes tx)
      \<and> (\<forall>i<length (prizes tx). prize_id (prizes tx ! i) = prize_id sel \<longrightarrow>
            remaining_quantity (prizes (final_db d (draw_write_part0 e sel tx)) ! i) =
              (if 0 < remaining_quantity (prizes tx ! i)
               then remaining_quantity (prizes tx ! i) - 1
               else remaining_quantity (prizes tx ! i)))
      \<and> (\<forall>i<length (prizes tx). prizes tx ! i = sel \<and> 0 < remaining_quantity sel \<longrightarrow>
            remaining_quantity sel =
              remaining_quantity (prizes (final_db d (draw_write_part0 e sel tx)) ! i) + 1)"
      by blast
  qed
qed (rule draw_alone_reports [THEN conjunct1] draw_alone_reports [THEN conjunct2])+

text \<open>
  The statement above at two runs of \<^verbatim>\<open>src/index.ts\<close>: a draw alone on the example of
  the specification answers with five units and leaves four; the writing part for the
  first prize, read with five units, on a store where the row holds four as the update
  runs, leaves three.
\<close>

theorem response_prize_before_decrement_witness:
  "response_of (draw_index (ex_env (1/20)) ex_request ex_db) =
       Success (Some \<lparr>participant_id = 1, participant_name = ''ann''\<rparr>) (ex_prize 1 10 5)
   \<and> map remaining_quantity
        (prizes (final_db ex_db (draw_index (ex_env (1/20)) ex_request ex_db))) = [4, 5]
   \<and> (\<exists>i<length (prizes ex_db). prizes ex_db ! i = ex_prize 1 10 5
         \<and> prize_id (prizes (final_db ex_db (draw_index (ex_env (1/20)) ex_request ex_db)) ! i)
             = prize_id (ex_prize 1 10 5)
         \<and> remaining_quantity (ex_prize 1 10 5) =
             remaining_quantity
               (prizes (final_db ex_db (draw_index (ex_env (1/20)) ex_request ex_db)) ! i) + 1)
   \<and> response_of (draw_write_index (ex_env (1/20)) 1 ''ann'' (ex_prize 1 10 5) ex_db_raced) =
       Success (Some \<lparr>participant_id = 1, participant_name = ''ann''\<rparr>) (ex_prize 1 10 5)
   \<and> remaining_quantity (prizes (final_db ex_db
        (draw_write_index (ex_env (1/20)) 1 ''ann'' (ex_prize 1 10 5) ex_db_raced)) ! 0) = 3"
proof -
  have r: "response_of (draw_index (ex_env (1/20)) ex_request ex_db) =
       Success (Some \<lparr>participant_id = 1, participant_name = ''ann''\<rparr>) (ex_prize 1 10 5)"
    by (simp add: ex_defs handler_defs)
  have p: "map remaining_quantity
        (prizes (final_db ex_db (draw_index (ex_env (1/20)) ex_request ex_db))) = [4, 5]"
    by (simp add: ex_defs handler_defs)
  have w: "response_of
        (draw_write_index (ex_env (1/20)) 1 ''ann'' (ex_prize 1 10 5) ex_db_raced) =
       Success (Some \<lparr>participant_id = 1, participant_name = ''ann''\<rparr>) (ex_prize 1 10 5)"
    by (simp add: ex_db_raced_def ex_defs handler_defs)
  note t = response_prize_before_decrement
    [where e = "ex_env (1/20)" and pid = 1 and n = "''ann''" and sel = "ex_prize 1 10 5"
       and tx = ex_db_raced and d = ex_db and req = ex_request
       and pt = "Some \<lparr>participant_id = 1, participant_name = ''ann''\<rparr>"
       and s = "ex_prize 1 10 5"]
  note tw = t [THEN conjunct1, rule_format, OF w]
  have row: "0 < length (prizes ex_db_raced)"
    "prize_id (prizes ex_db_raced ! 0) = prize_id (ex_prize 1 10 5)"
    "remaining_quantity (prizes ex_db_raced ! 0) = 4"
    by (simp_all add: ex_db_raced_def ex_prize_def)
  from tw [THEN conjunct2, THEN conjunct2, THEN conjunct1, rule_format, OF row(1,2)] row(3)
  have c: "remaining_quantity (prizes (final_db ex_db
        (draw_write_index (ex_env (1/20)) 1 ''ann'' (ex_prize 1 10 5) ex_db_raced)) ! 0) = 3"
    by simp
  note i = t [THEN conjunct2, THEN conjunct2, THEN conjunct1, rule_format, OF r]
  from r p i w c show ?thesis by blast
qed

text \<open>
  Claim C9 as worded fails in \<^verbatim>\<open>src/index.ts\<close>, whose read takes no lock: for a prize
  read with five units whose row holds four, or none, as the update runs, the writing
  part answers 200 with five units, and the store holds three, or none.
\<close>

theorem response_prize_before_decrement_counterexample:
  "response_of (draw_write_index (ex_env (1/20)) 1 ''ann'' (ex_prize 1 10 5) ex_db_raced) =
       Success (Some \<lparr>participant_id = 1, participant_name = ''ann''\<rparr>) (ex_prize 1 10 5)
   \<and> remaining_quantity (ex_prize 1 10 5) = 5
   \<and> map remaining_quantity (prizes (final_db ex_db
        (draw_write_index (ex_env (1/20)) 1 ''ann'' (ex_prize 1 10 5) ex_db_raced))) = [3, 5]
   \<and> remaining_quantity (ex_prize 1 10 5) \<noteq>
       remaining_quantity (prizes (final_db ex_db
         (draw_write_index (ex_env (1/20)) 1 ''ann'' (ex_prize 1 10 5) ex_db_raced)) ! 0) + 1
   \<and> response_of (draw_write_index (ex_env (1/20)) 1 ''ann'' (ex_prize 1 10 5) ex_db_exhausted) =
       Success (Some \<lparr>participant_id = 1, participant_name = ''ann''\<rparr>) (ex_prize 1 10 5)
   \<and> map remaining_quantity (prizes (final_db ex_db
        (draw_write_index (ex_env (1/20)) 1 ''ann'' (ex_prize 1 10 5) ex_db_exhausted))) = [0, 5]
   \<and> remaining_quantity (ex_prize 1 10 5) \<noteq>
       remaining_quantity (prizes (final_db ex_db
         (draw_write_index (ex_env (1/20)) 1 ''ann'' (ex_prize 1 10 5) ex_db_exhausted)) ! 0) + 1"
  by (simp add: ex_db_raced_def ex_defs handler_defs)

end
